theory Spec2Isabelle
  imports Main "HOL-Library.Multiset"
begin

section \<open>Python values and exceptions used by \<open>asr_rank.py\<close>\<close>

text \<open>
  The value returned by \<open>response.json()\<close> is a tree of Python objects. \<open>JNull\<close> is
  Python's \<open>None\<close>, \<open>JObj\<close> lists the items of a parsed dict in insertion order (the keys
  of a parsed dict are distinct), \<open>JArr\<close> is a list. JSON numbers are the integers; numbers
  with a fraction or an exponent (Python floats) are outside this model. A \<open>string\<close> stands
  for a Python \<open>str\<close>, one \<open>char\<close> for each character, so that \<open>length\<close> is Python's \<open>len\<close>:
  the model covers the characters U+0000 to U+00FF, and a str with another character is
  outside it.
\<close>

datatype json =
    JNull
  | JBool bool
  | JInt int
  | JStr string
  | JArr "json list"
  | JObj "(string \<times> json) list"

text \<open>
  The exception classes that can leave \<open>get_highest_rank_asn\<close>. \<open>JSONDecodeError\<close> is the
  error of \<open>response.json()\<close> on a body that is not JSON; in the \<open>requests\<close> and \<open>json\<close>
  libraries it is a subclass of \<open>ValueError\<close>. \<open>KeyError\<close> carries the missing key.
  \<open>session.get\<close> raises errors of two kinds. \<open>ConnectionError\<close> stands for its transport
  errors (\<open>ConnectionError\<close>, \<open>Timeout\<close> and the like), which derive from \<open>OSError\<close> and
  from neither \<open>ValueError\<close> nor \<open>LookupError\<close>. \<open>InvalidSchema\<close> stands for the errors of
  \<open>requests\<close> that derive from \<open>ValueError\<close> as well (\<open>InvalidSchema\<close>, \<open>InvalidURL\<close>,
  \<open>MissingSchema\<close>, \<open>InvalidHeader\<close>), raised for instance for a proxy taken from the
  environment, or a redirect, that \<open>requests\<close> cannot use.
\<close>

datatype error =
    ValueError
  | JSONDecodeError
  | KeyError string
  | TypeError
  | ConnectionError
  | InvalidSchema

text \<open>\<open>isinstance(e, ValueError)\<close>: what the clause \<open>except ValueError\<close> of \<open>main\<close> matches.\<close>

fun is_ValueError :: "error \<Rightarrow> bool" where
  "is_ValueError ValueError = True"
| "is_ValueError JSONDecodeError = True"
| "is_ValueError (KeyError k) = False"
| "is_ValueError TypeError = False"
| "is_ValueError ConnectionError = False"
| "is_ValueError InvalidSchema = True"

text \<open>\<open>isinstance(e, LookupError)\<close>: of the classes above only \<open>KeyError\<close> derives from it.\<close>

fun is_LookupError :: "error \<Rightarrow> bool" where
  "is_LookupError (KeyError k) = True"
| "is_LookupError ValueError = False"
| "is_LookupError JSONDecodeError = False"
| "is_LookupError TypeError = False"
| "is_LookupError ConnectionError = False"
| "is_LookupError InvalidSchema = False"

text \<open>
  \<open>x[k]\<close> with a string key \<open>k\<close>: a dict looks the key up and raises \<open>KeyError(k)\<close> when it
  is absent; a list or a str raises \<open>TypeError\<close> (their indices must be integers); \<open>None\<close>,
  a bool and an int are not subscriptable and raise \<open>TypeError\<close> too.
\<close>

fun subscript :: "json \<Rightarrow> string \<Rightarrow> error + json" where
  "subscript (JObj kvs) k = (case map_of kvs k of None \<Rightarrow> Inl (KeyError k) | Some v \<Rightarrow> Inr v)"
| "subscript (JArr xs) k = Inl TypeError"
| "subscript (JStr s) k = Inl TypeError"
| "subscript (JInt i) k = Inl TypeError"
| "subscript (JBool b) k = Inl TypeError"
| "subscript JNull k = Inl TypeError"

text \<open>
  The items a \<open>for\<close> loop or a generator expression draws from a value: the elements of a
  list, the keys of a dict, the one-character strings of a str; anything else is not
  iterable and raises \<open>TypeError\<close>.
\<close>

fun py_iter :: "json \<Rightarrow> error + json list" where
  "py_iter (JArr xs) = Inr xs"
| "py_iter (JObj kvs) = Inr (map (\<lambda>kv. JStr (fst kv)) kvs)"
| "py_iter (JStr s) = Inr (map (\<lambda>c. JStr [c]) s)"
| "py_iter (JInt i) = Inl TypeError"
| "py_iter (JBool b) = Inl TypeError"
| "py_iter JNull = Inl TypeError"

text \<open>A bool is an int in Python (\<open>True == 1\<close>); \<open>as_int\<close> reads the numeric values.\<close>

fun as_int :: "json \<Rightarrow> int option" where
  "as_int (JInt i) = Some i"
| "as_int (JBool b) = Some (if b then 1 else 0)"
| "as_int JNull = None"
| "as_int (JStr s) = None"
| "as_int (JArr xs) = None"
| "as_int (JObj kvs) = None"

text \<open>
  \<open>a == b\<close> on parsed JSON: numbers by value, strings by content, lists element by element,
  dicts as mappings (same keys, equal values, whatever the order); values of different
  kinds are unequal. It never raises.
\<close>

fun py_eq :: "json \<Rightarrow> json \<Rightarrow> bool" where
  "py_eq (JArr xs) (JArr ys) = list_all2 py_eq xs ys"
| "py_eq (JObj a) (JObj b) =
     (length a = length b \<and>
      list_all (\<lambda>kv. case map_of b (fst kv) of None \<Rightarrow> False | Some w \<Rightarrow> py_eq (snd kv) w) a)"
| "py_eq (JStr s) (JStr t) = (s = t)"
| "py_eq JNull JNull = True"
| "py_eq x y = (case (as_int x, as_int y) of (Some i, Some j) \<Rightarrow> i = j | _ \<Rightarrow> False)"

text \<open>\<open>s < t\<close> on strings: lexicographic in the code points.\<close>

fun str_lt :: "string \<Rightarrow> string \<Rightarrow> bool" where
  "str_lt [] [] = False"
| "str_lt [] (y # ys) = True"
| "str_lt (x # xs) [] = False"
| "str_lt (x # xs) (y # ys) =
     ((of_char x :: nat) < of_char y \<or> (x = y \<and> str_lt xs ys))"

text \<open>
  \<open>a < b\<close> on parsed JSON: numbers by value, strings lexicographically; two lists by their
  first pair of unequal elements (compared with \<open><\<close>, which may raise), or by their
  lengths when one is a prefix of the other; every other pair of values raises
  \<open>TypeError\<close>.
\<close>

fun py_lt :: "json \<Rightarrow> json \<Rightarrow> error + bool"
  and py_lt_list :: "json list \<Rightarrow> json list \<Rightarrow> error + bool" where
  "py_lt (JArr xs) (JArr ys) = py_lt_list xs ys"
| "py_lt (JStr s) (JStr t) = Inr (str_lt s t)"
| "py_lt x y = (case (as_int x, as_int y) of (Some i, Some j) \<Rightarrow> Inr (i < j) | _ \<Rightarrow> Inl TypeError)"
| "py_lt_list [] [] = Inr False"
| "py_lt_list [] (y # ys) = Inr True"
| "py_lt_list (x # xs) [] = Inr False"
| "py_lt_list (x # xs) (y # ys) = (if py_eq x y then py_lt_list xs ys else py_lt x y)"


section \<open>The network session\<close>

text \<open>
  \<open>session.get(url)\<close> followed by \<open>response.json()\<close> has three outcomes: \<open>session.get\<close>
  raises an error, which \<open>Request_failed\<close> carries; a response arrives whose body is not
  JSON, and \<open>response.json()\<close> raises; or the body parses to a value. The session is a
  parameter of the model: it maps the requested URL to the outcome.
\<close>

datatype http = Request_failed error | Not_json | Json json

type_synonym session = "string \<Rightarrow> http"

definition API_URL :: string where
  "API_URL = ''https://api.asrank.caida.org/v2''"

definition ORGANIZATIONS :: "string list" where
  "ORGANIZATIONS = [''Zenlayer'', ''Equinix'', ''Linode'', ''Ionos'', ''PhoenixNap'']"

section \<open>\<open>get_highest_rank_asn\<close>\<close>

text \<open>The three subscript chains of the function.\<close>

definition edges_of :: "json \<Rightarrow> error + json" where
  \<comment> \<open>\<open>asns['asns']['edges']\<close>\<close>
  "edges_of asns =
     (case subscript asns ''asns'' of Inl e \<Rightarrow> Inl e | Inr a \<Rightarrow> subscript a ''edges'')"

definition rank_of :: "json \<Rightarrow> error + json" where
  \<comment> \<open>\<open>node['node']['rank']\<close>\<close>
  "rank_of node =
     (case subscript node ''node'' of Inl e \<Rightarrow> Inl e | Inr n \<Rightarrow> subscript n ''rank'')"

definition cone_of :: "json \<Rightarrow> error + json" where
  \<comment> \<open>\<open>node['node']['cone']['numberAsns']\<close>\<close>
  "cone_of node =
     (case subscript node ''node'' of Inl e \<Rightarrow> Inl e
      | Inr n \<Rightarrow> (case subscript n ''cone'' of Inl e \<Rightarrow> Inl e
                 | Inr c \<Rightarrow> subscript c ''numberAsns''))"

text \<open>
  \<open>min(node['node']['rank'] for node in ...)\<close>: \<open>min\<close> draws the ranks one at a time, so
  the subscripts of a node are evaluated just before its rank is compared with the
  smallest rank so far; the new rank replaces it only when it is strictly smaller. The
  first exception ends the loop. With no item at all \<open>min\<close> raises \<open>ValueError\<close>.
\<close>

fun min_loop :: "json option \<Rightarrow> json list \<Rightarrow> error + json option" where
  "min_loop cur [] = Inr cur"
| "min_loop cur (node # nodes) =
     (case rank_of node of Inl e \<Rightarrow> Inl e
      | Inr v \<Rightarrow>
          (case cur of None \<Rightarrow> min_loop (Some v) nodes
           | Some m \<Rightarrow>
               (case py_lt v m of Inl e \<Rightarrow> Inl e
                | Inr b \<Rightarrow> min_loop (Some (if b then v else m)) nodes)))"

definition py_min_rank :: "json list \<Rightarrow> error + json" where
  "py_min_rank nodes =
     (case min_loop None nodes of Inl e \<Rightarrow> Inl e
      | Inr None \<Rightarrow> Inl ValueError
      | Inr (Some m) \<Rightarrow> Inr m)"

text \<open>
  The \<open>for\<close> loop of lines 63 to 65: \<open>conesize\<close> is overwritten at every node whose rank
  equals \<open>highest_rank\<close>; the cone subscripts are evaluated for those nodes only.
\<close>

fun conesize_loop :: "json \<Rightarrow> json \<Rightarrow> json list \<Rightarrow> error + json" where
  "conesize_loop highest_rank conesize [] = Inr conesize"
| "conesize_loop highest_rank conesize (node # nodes) =
     (case rank_of node of Inl e \<Rightarrow> Inl e
      | Inr r \<Rightarrow>
          if py_eq r highest_rank
          then (case cone_of node of Inl e \<Rightarrow> Inl e
                | Inr c \<Rightarrow> conesize_loop highest_rank c nodes)
          else conesize_loop highest_rank conesize nodes)"

text \<open>
  Lines 61 to 66, on the value \<open>asns\<close> of \<open>response.json()['data']\<close>. The placeholder
  \<open>conesize = None\<close> is \<open>JNull\<close>. Line 63 evaluates \<open>asns['asns']['edges']\<close> a second time;
  nothing has changed the value, so the model iterates the same items.
\<close>

definition selector :: "json \<Rightarrow> error + json \<times> json" where
  "selector asns =
     (case edges_of asns of Inl e \<Rightarrow> Inl e
      | Inr edges \<Rightarrow>
          (case py_iter edges of Inl e \<Rightarrow> Inl e
           | Inr nodes \<Rightarrow>
               (case py_min_rank nodes of Inl e \<Rightarrow> Inl e
                | Inr highest_rank \<Rightarrow>
                    (case conesize_loop highest_rank JNull nodes of Inl e \<Rightarrow> Inl e
                     | Inr conesize \<Rightarrow> Inr (highest_rank, conesize)))))"

definition request_url :: "string \<Rightarrow> string" where
  \<comment> \<open>\<open>f'{API_URL}/restful/asns?name={organization}'\<close>\<close>
  "request_url organization = API_URL @ ''/restful/asns?name='' @ organization"

definition get_highest_rank_asn :: "session \<Rightarrow> string \<Rightarrow> error + json \<times> json" where
  "get_highest_rank_asn session organization =
     (case session (request_url organization) of
        Request_failed e \<Rightarrow> Inl e
      | Not_json \<Rightarrow> Inl JSONDecodeError
      | Json body \<Rightarrow>
          (case subscript body ''data'' of Inl e \<Rightarrow> Inl e | Inr asns \<Rightarrow> selector asns))"

section \<open>\<open>sorting_asns\<close>\<close>

text \<open>
  An Organization Result is the tuple \<open>(organization, asrank, conesize)\<close> with integer
  rank and cone size. \<open>x[index]\<close> reads field 1 or field 2 of it.
\<close>

type_synonym result = "string \<times> int \<times> int"

definition field :: "nat \<Rightarrow> string \<times> 'a \<times> 'a \<Rightarrow> 'a" where
  "field index x = (if index = 1 then fst (snd x) else snd (snd x))"

text \<open>
  \<open>sorted(xs, key=f, reverse=r)\<close> is a stable sort by \<open>f\<close>. With \<open>reverse=True\<close> Python
  reverses the list, sorts it stably in ascending order and reverses the result.
\<close>

definition py_sorted :: "('a \<Rightarrow> int) \<Rightarrow> bool \<Rightarrow> 'a list \<Rightarrow> 'a list" where
  "py_sorted f reverse xs = (if reverse then rev (sort_key f (rev xs)) else sort_key f xs)"

definition sorting_asns :: "result list \<Rightarrow> string \<Rightarrow> string \<Rightarrow> result list" where
  "sorting_asns results metric order =
     (let order_flag = (if order = ''descending'' then True else False);
          index = (if metric = ''asrank'' then 1 else 2)
      in py_sorted (field index) order_flag results)"

section \<open>\<open>beautify\<close>\<close>

text \<open>
  The format specifications \<open>^10s\<close>, \<open>10s\<close> and \<open>10d\<close>: the text is padded with spaces to
  the width, counted in characters, and is never cut. Centering puts the smaller half of
  the padding on the left. A str is left-aligned by default, an int right-aligned.
\<close>

datatype align = Left | Right | Center

definition pad :: "align \<Rightarrow> nat \<Rightarrow> string \<Rightarrow> string" where
  "pad a width s =
     (let n = width - length s in
      case a of
        Left \<Rightarrow> s @ replicate n CHR '' ''
      | Right \<Rightarrow> replicate n CHR '' '' @ s
      | Center \<Rightarrow> replicate (n div 2) CHR '' '' @ s @ replicate (n - n div 2) CHR '' '')"

text \<open>The decimal digits of an int, with a minus sign when it is negative.\<close>

definition digit :: "nat \<Rightarrow> char" where
  "digit d = ''0123456789'' ! d"

function digits :: "nat \<Rightarrow> string" where
  "digits n = (if n < 10 then [digit n] else digits (n div 10) @ [digit (n mod 10)])"
  by pat_completeness auto
termination
  by (relation "measure (\<lambda>n. n)") auto

declare digits.simps [simp del]

definition decimal :: "int \<Rightarrow> string" where
  "decimal i = (if i < 0 then CHR ''-'' # digits (nat (- i)) else digits (nat i))"

definition format_s :: "align \<Rightarrow> nat \<Rightarrow> string \<Rightarrow> string" where
  "format_s a width s = pad a width s"

text \<open>
  CPython (3.11, and the security releases of 3.7 to 3.10) refuses to convert an int of
  more than \<open>sys.get_int_max_str_digits()\<close> digits, 4300 unless configured, to decimal:
  the format code \<open>d\<close> raises \<open>ValueError\<close> then. The sign does not count.
\<close>

definition max_str_digits :: nat where
  "max_str_digits = 4300"

definition format_d :: "nat \<Rightarrow> int \<Rightarrow> error + string" where
  "format_d width i =
     (if max_str_digits < length (digits (nat \<bar>i\<bar>)) then Inl ValueError
      else Inr (pad Right width (decimal i)))"

text \<open>
  The format code \<open>d\<close> on any parsed value: a bool is formatted as the integer 0 or 1, a
  str raises \<open>ValueError\<close> (unknown format code), \<open>None\<close>, a list and a dict raise
  \<open>TypeError\<close> (unsupported format string).
\<close>

fun format_d_py :: "nat \<Rightarrow> json \<Rightarrow> error + string" where
  "format_d_py width (JInt i) = format_d width i"
| "format_d_py width (JBool b) = format_d width (if b then 1 else 0)"
| "format_d_py width (JStr s) = Inl ValueError"
| "format_d_py width JNull = Inl TypeError"
| "format_d_py width (JArr xs) = Inl TypeError"
| "format_d_py width (JObj kvs) = Inl TypeError"

text \<open>
  The f-string of line 94 formats its three fields from left to right; the first field
  that raises ends it, and nothing is printed for that row.
\<close>

definition row :: "result \<Rightarrow> error + string" where
  "row result =
     (case format_d 10 (fst (snd result)) of Inl e \<Rightarrow> Inl e
      | Inr asrank \<Rightarrow>
          (case format_d 10 (snd (snd result)) of Inl e \<Rightarrow> Inl e
           | Inr conesize \<Rightarrow>
               Inr (format_s Left 10 (fst result) @ '' '' @ asrank @ '' '' @ conesize)))"

definition row_py :: "string \<times> json \<times> json \<Rightarrow> error + string" where
  "row_py result =
     (case format_d_py 10 (fst (snd result)) of Inl e \<Rightarrow> Inl e
      | Inr asrank \<Rightarrow>
          (case format_d_py 10 (snd (snd result)) of Inl e \<Rightarrow> Inl e
           | Inr conesize \<Rightarrow>
               Inr (format_s Left 10 (fst result) @ '' '' @ asrank @ '' '' @ conesize)))"

text \<open>
  The loop of lines 93 and 94, after the lines \<open>printed\<close> so far: \<open>Inr\<close> with all the
  lines printed, or \<open>Inl\<close> with the exception and the lines printed before it.
\<close>

fun print_rows ::
  "('a \<Rightarrow> error + string) \<Rightarrow> 'a list \<Rightarrow> string list \<Rightarrow> error \<times> string list + string list" where
  "print_rows format_row [] printed = Inr printed"
| "print_rows format_row (result # results) printed =
     (case format_row result of
        Inl e \<Rightarrow> Inl (e, printed)
      | Inr line \<Rightarrow> print_rows format_row results (printed @ [line]))"

definition header_line :: string where
  "header_line =
     format_s Center 10 ''Organization'' @ '' '' @ format_s Center 10 ''ASRank'' @ '' '' @
     format_s Center 10 ''ConeSize''"

definition rule_line :: string where
  \<comment> \<open>\<open>'-' * 35\<close>\<close>
  "rule_line = concat (replicate 35 ''-'')"

text \<open>\<open>beautify\<close> on Organization Results, and on tuples of any parsed values.\<close>

definition beautify :: "result list \<Rightarrow> error \<times> string list + string list" where
  "beautify results = print_rows row results [header_line, rule_line]"

definition beautify_py ::
  "(string \<times> json \<times> json) list \<Rightarrow> error \<times> string list + string list" where
  "beautify_py results = print_rows row_py results [header_line, rule_line]"

text \<open>
  What ``decimal'' means, to state the rows against: \<open>read_decimal\<close> reads a numeral in
  decimal notation, an optional minus sign and then digits, without leading zeros and
  without \<open>-0\<close>; \<open>value_of\<close> is the number the digits denote.
\<close>

definition value_of :: "string \<Rightarrow> nat" where
  "value_of s = foldl (\<lambda>a c. 10 * a + (of_char c - 48)) 0 s"

definition is_digit :: "char \<Rightarrow> bool" where
  "is_digit c = (c \<in> set ''0123456789'')"

definition read_decimal :: "string \<Rightarrow> int option" where
  "read_decimal s =
     (let negative = (take 1 s = ''-'');
          body = (if negative then drop 1 s else s)
      in if body = [] \<or> \<not> list_all is_digit body \<or>
            (1 < length body \<and> hd body = CHR ''0'') \<or> (negative \<and> body = ''0'')
         then None
         else Some (if negative then - int (value_of body) else int (value_of body)))"

section \<open>\<open>main\<close>\<close>

text \<open>
  The loop of lines 106 to 112. Its state is the list \<open>results\<close> and the lines printed
  so far. An exception that \<open>except ValueError\<close> does not match leaves the loop, and
  \<open>main\<close>, at once.
\<close>

definition diagnostic :: "string \<Rightarrow> string" where
  "diagnostic organization = ''the following '' @ organization @ '' does not have information!''"

fun aggregate ::
  "session \<Rightarrow> string list \<Rightarrow> (string \<times> json \<times> json) list \<Rightarrow> string list \<Rightarrow>
   error \<times> string list + (string \<times> json \<times> json) list \<times> string list" where
  "aggregate session [] results printed = Inr (results, printed)"
| "aggregate session (organization # organizations) results printed =
     (case get_highest_rank_asn session organization of
        Inr (asrank, conesize) \<Rightarrow>
          aggregate session organizations (results @ [(organization, asrank, conesize)]) printed
      | Inl e \<Rightarrow>
          if is_ValueError e
          then aggregate session organizations results (printed @ [diagnostic organization])
          else Inl (e, printed))"

text \<open>
  The collected ranks and cone sizes are whatever the responses held. \<open>int_results\<close>
  reads the collected tuples as Organization Results when every rank and cone size is an
  integer (a bool counts as the integer 0 or 1, in \<open>sorted\<close> and in the format code \<open>d\<close>).
\<close>

fun int_results :: "(string \<times> json \<times> json) list \<Rightarrow> result list option" where
  "int_results [] = Some []"
| "int_results ((organization, asrank, conesize) # rest) =
     (case (as_int asrank, as_int conesize, int_results rest) of
        (Some r, Some c, Some rs) \<Rightarrow> Some ((organization, r, c) # rs)
      | _ \<Rightarrow> None)"

text \<open>The tuple the loop collects for an Organization Result.\<close>

definition as_json :: "result \<Rightarrow> string \<times> json \<times> json" where
  "as_json result = (fst result, JInt (fst (snd result)), JInt (snd (snd result)))"

text \<open>
  \<open>sorting_asns\<close> on tuples of any parsed values. \<open>sorted\<close> compares the keys with \<open><\<close>.
  With fewer than two tuples it compares nothing. With keys that can all be compared
  with one another it is the stable sort by \<open><\<close>, here an insertion sort. Otherwise a
  comparison raises \<open>TypeError\<close>: a key that is \<open>None\<close> or a dict cannot be compared with
  anything, and two keys of different kinds (number, str, list) cannot be compared, so
  that any sort must meet such a pair. The one approximation: when the keys are lists of which some pairs
  only cannot be compared, CPython raises if its merge sort happens to compare such a
  pair, and the model raises always.
\<close>

fun insort_py :: "('a \<Rightarrow> json) \<Rightarrow> 'a \<Rightarrow> 'a list \<Rightarrow> 'a list" where
  "insort_py f x [] = [x]"
| "insort_py f x (y # ys) =
     (if py_lt (f y) (f x) = Inr True then y # insort_py f x ys else x # y # ys)"

definition sort_py :: "('a \<Rightarrow> json) \<Rightarrow> 'a list \<Rightarrow> 'a list" where
  "sort_py f xs = foldr (insort_py f) xs []"

definition comparable :: "json list \<Rightarrow> bool" where
  "comparable keys =
     list_all (\<lambda>a. list_all (\<lambda>b. case py_lt a b of Inl e \<Rightarrow> False | Inr c \<Rightarrow> True) keys) keys"

definition py_sorted_any :: "('a \<Rightarrow> json) \<Rightarrow> bool \<Rightarrow> 'a list \<Rightarrow> error + 'a list" where
  "py_sorted_any f reverse xs =
     (if length xs \<le> 1 then Inr xs
      else if comparable (map f xs)
      then Inr (if reverse then rev (sort_py f (rev xs)) else sort_py f xs)
      else Inl TypeError)"

definition sorting_asns_py ::
  "(string \<times> json \<times> json) list \<Rightarrow> string \<Rightarrow> string \<Rightarrow> error + (string \<times> json \<times> json) list" where
  "sorting_asns_py results metric order =
     (let order_flag = (if order = ''descending'' then True else False);
          index = (if metric = ''asrank'' then 1 else 2)
      in py_sorted_any (field index) order_flag results)"

text \<open>
  How a run of \<open>main\<close> ends. \<open>Completed\<close>: normally, with the lines printed.
  \<open>Uncaught\<close>: with an exception that nothing caught, after the lines printed so far.
  \<open>Usage_error\<close>: \<open>parse_args\<close> rejected an option value, before any request.
\<close>

datatype outcome =
    Completed "string list"
  | Uncaught error "string list"
  | Usage_error

definition finish :: "string list \<Rightarrow> error \<times> string list + string list \<Rightarrow> outcome" where
  "finish printed table =
     (case table of
        Inl (e, lines) \<Rightarrow> Uncaught e (printed @ lines)
      | Inr lines \<Rightarrow> Completed (printed @ lines))"

text \<open>
  \<open>sort_by\<close> and \<open>order\<close> are the values given on the command line for \<open>--sort_by\<close> and
  \<open>--order\<close>, \<open>None\<close> when the option is absent. After the loop, lines 114 and 115 act on
  the Organization Results when every collected value is an integer, and on the tuples
  as they are otherwise.
\<close>

definition main :: "session \<Rightarrow> string option \<Rightarrow> string option \<Rightarrow> outcome" where
  "main session sort_by order =
     (let args_sort_by = (case sort_by of None \<Rightarrow> ''asrank'' | Some s \<Rightarrow> s);
          args_order = (case order of None \<Rightarrow> ''ascending'' | Some s \<Rightarrow> s)
      in if args_sort_by \<notin> set [''asrank'', ''cone_size''] \<or>
            args_order \<notin> set [''ascending'', ''descending'']
         then Usage_error
         else (case aggregate session ORGANIZATIONS [] [] of
                 Inl (e, printed) \<Rightarrow> Uncaught e printed
               | Inr (results, printed) \<Rightarrow>
                   (case int_results results of
                      Some rs \<Rightarrow>
                        finish printed (beautify (sorting_asns rs args_sort_by args_order))
                    | None \<Rightarrow>
                        (case sorting_asns_py results args_sort_by args_order of
                           Inl e \<Rightarrow> Uncaught e printed
                         | Inr sorted_results \<Rightarrow>
                             finish printed (beautify_py sorted_results)))))"

section \<open>Well-formed responses and fixtures\<close>

text \<open>
  \<open>raw_records body records\<close>: the parsed body has the shape the API documents,
  \<open>{"data": {"asns": {"edges": [...]}}}\<close>, and its edges, in order, hold the integer rank
  and cone size of \<open>records\<close> (a list of pairs \<open>(rank, cone_size)\<close>). Further keys may be
  present anywhere.
\<close>

definition raw_records :: "json \<Rightarrow> (int \<times> int) list \<Rightarrow> bool" where
  "raw_records body records =
     (case subscript body ''data'' of Inl e \<Rightarrow> False
      | Inr asns \<Rightarrow>
          (case edges_of asns of
             Inr (JArr nodes) \<Rightarrow>
               map rank_of nodes = map (\<lambda>r. Inr (JInt (fst r))) records \<and>
               map cone_of nodes = map (\<lambda>r. Inr (JInt (snd r))) records
           | _ \<Rightarrow> False))"

text \<open>Fixtures: one edge of a response, a response, and sessions that answer with them.\<close>

definition edge :: "int \<Rightarrow> int \<Rightarrow> json" where
  "edge r c =
     JObj [(''node'', JObj [(''asn'', JStr ''63949''), (''rank'', JInt r),
                            (''cone'', JObj [(''numberAsns'', JInt c)])])]"

definition response :: "json list \<Rightarrow> json" where
  "response edges =
     JObj [(''data'', JObj [(''asns'', JObj [(''totalCount'', JInt (int (length edges))),
                                             (''edges'', JArr edges)])])]"

definition fixture_session :: session where
  \<comment> \<open>the end-to-end scenario of the specification; the other organizations have no record\<close>
  "fixture_session url =
     (if url = request_url ''Linode'' then Json (response [edge 6949 2, edge 9000 1])
      else if url = request_url ''Equinix'' then Json (response [edge 200 232])
      else Json (response []))"

definition tie_session :: session where
  \<comment> \<open>two records share the smallest rank\<close>
  "tie_session url = Json (response [edge 5 1, edge 3 2, edge 3 7, edge 4 9])"

definition empty_session :: session where
  \<comment> \<open>every organization has an empty edge list\<close>
  "empty_session url = Json (response [])"

definition no_data_session :: session where
  \<comment> \<open>every answer is the JSON object \<open>{}\<close>\<close>
  "no_data_session url = Json (JObj [])"

definition no_asns_session :: session where
  \<comment> \<open>every answer is \<open>{"data": {}}\<close>\<close>
  "no_asns_session url = Json (JObj [(''data'', JObj [])])"

definition no_edges_session :: session where
  \<comment> \<open>every answer is \<open>{"data": {"asns": {}}}\<close>\<close>
  "no_edges_session url = Json (JObj [(''data'', JObj [(''asns'', JObj [])])])"

definition unreachable_session :: session where
  \<comment> \<open>no connection can be made\<close>
  "unreachable_session url = Request_failed ConnectionError"

definition bad_proxy_session :: session where
  \<comment> \<open>the proxy of the environment has a scheme \<open>requests\<close> cannot use\<close>
  "bad_proxy_session url = Request_failed InvalidSchema"

definition html_session :: session where
  \<comment> \<open>every answer is a page that is not JSON\<close>
  "html_session url = Not_json"

definition null_cone_session :: session where
  \<comment> \<open>every organization has one record, of rank 5, whose cone size is \<open>null\<close>\<close>
  "null_cone_session url =
     Json (response [JObj [(''node'', JObj [(''rank'', JInt 5),
                                            (''cone'', JObj [(''numberAsns'', JNull)])])]])"

definition text_rank_session :: session where
  \<comment> \<open>every organization has one record, whose rank is the string \<open>"7"\<close>\<close>
  "text_rank_session url =
     Json (response [JObj [(''node'', JObj [(''rank'', JStr ''7''),
                                            (''cone'', JObj [(''numberAsns'', JInt 1)])])]])"

section \<open>Properties of \<open>sorting_asns\<close>\<close>

lemma py_sorted_stable:
  "filter (\<lambda>y. f y = k) (py_sorted f r xs) = filter (\<lambda>y. f y = k) xs"
proof (cases r)
  case True
  have "filter (\<lambda>y. f y = k) (rev (sort_key f (rev xs))) = rev (filter (\<lambda>y. f y = k) (sort_key f (rev xs)))"
    by (simp add: rev_filter)
  also have "\<dots> = rev (filter (\<lambda>y. f y = k) (rev xs))"
    by (simp only: sort_key_stable)
  also have "\<dots> = filter (\<lambda>y. f y = k) xs"
    by (simp add: rev_filter)
  finally show ?thesis using True by (simp add: py_sorted_def)
next
  case False
  then show ?thesis by (simp add: py_sorted_def sort_key_stable)
qed

lemma py_sorted_ascending: "sorted (map f (py_sorted f False xs))"
  by (simp add: py_sorted_def)

lemma py_sorted_descending: "sorted_wrt (\<lambda>a b. b \<le> a) (map f (py_sorted f True xs))"
proof -
  have "sorted_wrt (\<lambda>a b. b \<le> a) (rev (map f (sort_key f (rev xs))))"
    by (simp add: sorted_wrt_rev)
  then show ?thesis
    by (simp add: py_sorted_def rev_map)
qed

lemma mset_py_sorted: "mset (py_sorted f r xs) = mset xs"
  by (simp add: py_sorted_def)

lemma py_sorted_idem: "py_sorted f r (py_sorted f r xs) = py_sorted f r xs"
  by (simp add: py_sorted_def sort_key_id_if_sorted)

lemma sorting_asns_asrank:
  "sorting_asns results ''asrank'' order =
     py_sorted (\<lambda>x. fst (snd x)) (order = ''descending'') results"
proof -
  have "(field 1 :: result \<Rightarrow> int) = (\<lambda>x. fst (snd x))"
    by (simp add: field_def fun_eq_iff)
  then show ?thesis
    by (simp add: sorting_asns_def)
qed

lemma sorting_asns_cone_size:
  assumes "metric \<noteq> ''asrank''"
  shows "sorting_asns results metric order =
     py_sorted (\<lambda>x. snd (snd x)) (order = ''descending'') results"
proof -
  have "(field 2 :: result \<Rightarrow> int) = (\<lambda>x. snd (snd x))"
    by (simp add: field_def fun_eq_iff)
  with assms show ?thesis
    by (simp add: sorting_asns_def)
qed

text \<open>
  Claim C5. \<open>sorting_asns\<close> is stable in both directions: for either sort key and any
  value \<open>k\<close> of it, the results whose key is \<open>k\<close> come out in the order they went in,
  whatever the \<open>order\<close> argument is.
\<close>

theorem sorting_asns_stable:
  "filter (\<lambda>x. fst (snd x) = k) (sorting_asns results ''asrank'' order) =
     filter (\<lambda>x. fst (snd x) = k) results \<and>
   filter (\<lambda>x. snd (snd x) = k) (sorting_asns results ''cone_size'' order) =
     filter (\<lambda>x. snd (snd x) = k) results"
  by (simp add: sorting_asns_asrank sorting_asns_cone_size py_sorted_stable)

text \<open>
  Claim C6. With \<open>ascending\<close> the values of the chosen field are non-decreasing along
  the output, with \<open>descending\<close> they are non-increasing; the output is a permutation of
  the input, and the empty list sorts to the empty list.
\<close>

theorem sorting_asns_ordered:
  "sorted (map (\<lambda>x. fst (snd x)) (sorting_asns results ''asrank'' ''ascending'')) \<and>
   sorted (map (\<lambda>x. snd (snd x)) (sorting_asns results ''cone_size'' ''ascending'')) \<and>
   sorted_wrt (\<lambda>a b. b \<le> a)
     (map (\<lambda>x. fst (snd x)) (sorting_asns results ''asrank'' ''descending'')) \<and>
   sorted_wrt (\<lambda>a b. b \<le> a)
     (map (\<lambda>x. snd (snd x)) (sorting_asns results ''cone_size'' ''descending'')) \<and>
   mset (sorting_asns results metric order) = mset results \<and>
   sorting_asns [] metric order = []"
proof -
  have "sorted (map (\<lambda>x. fst (snd x)) (sorting_asns results ''asrank'' ''ascending''))"
    by (simp add: sorting_asns_asrank py_sorted_ascending)
  moreover have "sorted (map (\<lambda>x. snd (snd x)) (sorting_asns results ''cone_size'' ''ascending''))"
    by (simp add: sorting_asns_cone_size py_sorted_ascending)
  moreover have "sorted_wrt (\<lambda>a b. b \<le> a)
      (map (\<lambda>x. fst (snd x)) (sorting_asns results ''asrank'' ''descending''))"
    by (simp add: sorting_asns_asrank py_sorted_descending)
  moreover have "sorted_wrt (\<lambda>a b. b \<le> a)
      (map (\<lambda>x. snd (snd x)) (sorting_asns results ''cone_size'' ''descending''))"
    by (simp add: sorting_asns_cone_size py_sorted_descending)
  moreover have "mset (sorting_asns results metric order) = mset results"
    by (simp add: sorting_asns_def mset_py_sorted)
  moreover have "sorting_asns [] metric order = []"
    by (simp add: sorting_asns_def py_sorted_def)
  ultimately show ?thesis by blast
qed

text \<open>
  Claim C7. \<open>sorting_asns\<close> is idempotent: sorting its own output again with the same
  key and direction changes nothing.
\<close>

theorem sorting_asns_idempotent:
  "sorting_asns (sorting_asns results metric order) metric order =
     sorting_asns results metric order"
  by (simp add: sorting_asns_def py_sorted_idem)


section \<open>Properties of \<open>get_highest_rank_asn\<close>\<close>

lemma Min_insert_min:
  fixes a m :: int
  assumes "finite S"
  shows "Min (insert (min a m) S) = Min (insert m (insert a S))"
  using assms by (cases "S = {}") (auto simp: min.assoc min.commute min.left_commute)

lemma min_loop_ints:
  "map rank_of nodes = map (\<lambda>r. Inr (JInt (fst r))) records \<Longrightarrow>
   min_loop (Some (JInt m)) nodes = Inr (Some (JInt (Min (insert m (fst ` set records)))))"
proof (induction nodes arbitrary: records m)
  case Nil
  then show ?case by simp
next
  case (Cons node nodes)
  then obtain r rest where records: "records = r # rest"
    by (cases records) auto
  with Cons.prems have rank: "rank_of node = Inr (JInt (fst r))"
    and rest: "map rank_of nodes = map (\<lambda>r. Inr (JInt (fst r))) rest"
    by simp_all
  have "min_loop (Some (JInt m)) (node # nodes) =
        min_loop (Some (JInt (if fst r < m then fst r else m))) nodes"
    by (simp add: rank)
  also have "\<dots> = Inr (Some (JInt (Min (insert (if fst r < m then fst r else m) (fst ` set rest)))))"
    by (rule Cons.IH [OF rest])
  also have "Min (insert (if fst r < m then fst r else m) (fst ` set rest)) =
             Min (insert m (fst ` set records))"
  proof -
    have "(if fst r < m then fst r else m) = min (fst r) m"
      by (auto simp: min_def)
    moreover have "Min (insert (min (fst r) m) (fst ` set rest)) =
        Min (insert m (insert (fst r) (fst ` set rest)))"
      by (rule Min_insert_min) simp
    moreover have "insert m (fst ` set records) = insert m (insert (fst r) (fst ` set rest))"
      by (simp add: records)
    ultimately show ?thesis
      by (simp only:)
  qed
  finally show ?case .
qed

lemma py_min_rank_ints:
  assumes "map rank_of nodes = map (\<lambda>r. Inr (JInt (fst r))) records" and "records \<noteq> []"
  shows "py_min_rank nodes = Inr (JInt (Min (fst ` set records)))"
proof -
  from assms obtain r rest node ns where records: "records = r # rest" and nodes: "nodes = node # ns"
    by (cases records; cases nodes) auto
  with assms have rank: "rank_of node = Inr (JInt (fst r))"
    and rest: "map rank_of ns = map (\<lambda>r. Inr (JInt (fst r))) rest"
    by simp_all
  have "min_loop None nodes = min_loop (Some (JInt (fst r))) ns"
    by (simp add: nodes rank)
  then show ?thesis
    by (simp add: py_min_rank_def min_loop_ints [OF rest] records)
qed

lemma conesize_loop_ints:
  "map rank_of nodes = map (\<lambda>r. Inr (JInt (fst r))) records \<Longrightarrow>
   map cone_of nodes = map (\<lambda>r. Inr (JInt (snd r))) records \<Longrightarrow>
   conesize_loop (JInt m) conesize nodes =
     Inr (if filter (\<lambda>r. fst r = m) records = [] then conesize
          else JInt (snd (last (filter (\<lambda>r. fst r = m) records))))"
proof (induction nodes arbitrary: records conesize)
  case Nil
  then show ?case by simp
next
  case (Cons node nodes)
  then obtain r rest where records: "records = r # rest"
    by (cases records) auto
  with Cons.prems have rank: "rank_of node = Inr (JInt (fst r))"
    and cone: "cone_of node = Inr (JInt (snd r))"
    and rest: "map rank_of nodes = map (\<lambda>r. Inr (JInt (fst r))) rest"
              "map cone_of nodes = map (\<lambda>r. Inr (JInt (snd r))) rest"
    by simp_all
  show ?case
  proof (cases "fst r = m")
    case True
    then show ?thesis
      by (simp add: rank cone records Cons.IH [OF rest])
  next
    case False
    then show ?thesis
      by (simp add: rank records Cons.IH [OF rest])
  qed
qed

lemma selector_ints:
  assumes "edges_of asns = Inr (JArr nodes)"
    and "map rank_of nodes = map (\<lambda>r. Inr (JInt (fst r))) records"
    and "map cone_of nodes = map (\<lambda>r. Inr (JInt (snd r))) records"
    and "records \<noteq> []"
  shows "selector asns =
     Inr (JInt (Min (fst ` set records)),
          JInt (snd (last (filter (\<lambda>r. fst r = Min (fst ` set records)) records))))"
proof -
  have "Min (fst ` set records) \<in> fst ` set records"
    using assms(4) by (intro Min_in) auto
  then obtain x where "x \<in> set records" and "fst x = Min (fst ` set records)"
    by force
  then have "filter (\<lambda>r. fst r = Min (fst ` set records)) records \<noteq> []"
    by (auto simp: filter_empty_conv)
  then show ?thesis
    by (simp add: selector_def assms(1) py_min_rank_ints [OF assms(2,4)]
        conesize_loop_ints [OF assms(2,3)])
qed

lemma get_highest_rank_asn_ints:
  assumes "session (request_url organization) = Json body"
    and "raw_records body records" and "records \<noteq> []"
  shows "get_highest_rank_asn session organization =
     Inr (JInt (Min (fst ` set records)),
          JInt (snd (last (filter (\<lambda>r. fst r = Min (fst ` set records)) records))))"
proof -
  from assms(2) obtain asns nodes where "subscript body ''data'' = Inr asns"
    and "edges_of asns = Inr (JArr nodes)"
    and "map rank_of nodes = map (\<lambda>r. Inr (JInt (fst r))) records"
    and "map cone_of nodes = map (\<lambda>r. Inr (JInt (snd r))) records"
    by (auto simp: raw_records_def split: sum.splits json.splits)
  then show ?thesis
    by (simp add: get_highest_rank_asn_def assms(1) selector_ints [OF _ _ _ assms(3)])
qed


text \<open>
  Claim C1. On a well-formed response with at least one record, \<open>get_highest_rank_asn\<close>
  returns a pair whose rank is the minimum of the ranks of the records.
\<close>

theorem selector_returns_minimum_rank:
  assumes "session (request_url organization) = Json body"
    and "raw_records body records" and "records \<noteq> []"
  shows "\<exists>conesize. get_highest_rank_asn session organization =
           Inr (JInt (Min (fst ` set records)), conesize)"
  using get_highest_rank_asn_ints [of session organization body records] assms by simp

theorem selector_returns_minimum_rank_witness:
  "fixture_session (request_url ''Linode'') = Json (response [edge 6949 2, edge 9000 1]) \<and>
   raw_records (response [edge 6949 2, edge 9000 1]) [(6949, 2), (9000, 1)] \<and>
   [(6949, 2), (9000, 1)] \<noteq> ([] :: (int \<times> int) list) \<and>
   (\<exists>conesize. get_highest_rank_asn fixture_session ''Linode'' = Inr (JInt 6949, conesize))"
proof -
  have a: "fixture_session (request_url ''Linode'') = Json (response [edge 6949 2, edge 9000 1])"
    by (simp add: fixture_session_def)
  have b: "raw_records (response [edge 6949 2, edge 9000 1]) [(6949, 2), (9000, 1)]"
    by (simp add: raw_records_def response_def edge_def edges_of_def rank_of_def cone_of_def)
  have c: "[(6949, 2), (9000, 1)] \<noteq> ([] :: (int \<times> int) list)"
    by simp
  show ?thesis
    using a b c selector_returns_minimum_rank
      [of fixture_session "''Linode''" "response [edge 6949 2, edge 9000 1]" "[(6949, 2), (9000, 1)]"]
    by simp
qed

text \<open>
  Claim C4. On a well-formed response with at least one record, the cone size returned
  is that of the last record, in response order, whose rank is the minimum rank.
\<close>

theorem selector_takes_last_minimum:
  assumes "session (request_url organization) = Json body"
    and "raw_records body records" and "records \<noteq> []"
  shows "get_highest_rank_asn session organization =
     Inr (JInt (Min (fst ` set records)),
          JInt (snd (last (filter (\<lambda>r. fst r = Min (fst ` set records)) records))))"
  using get_highest_rank_asn_ints [of session organization body records] assms by simp

theorem selector_takes_last_minimum_witness:
  "tie_session (request_url ''Ionos'') = Json (response [edge 5 1, edge 3 2, edge 3 7, edge 4 9]) \<and>
   raw_records (response [edge 5 1, edge 3 2, edge 3 7, edge 4 9]) [(5, 1), (3, 2), (3, 7), (4, 9)] \<and>
   [(5, 1), (3, 2), (3, 7), (4, 9)] \<noteq> ([] :: (int \<times> int) list) \<and>
   get_highest_rank_asn tie_session ''Ionos'' = Inr (JInt 3, JInt 7)"
proof -
  have a: "tie_session (request_url ''Ionos'') = Json (response [edge 5 1, edge 3 2, edge 3 7, edge 4 9])"
    by (simp add: tie_session_def)
  have b: "raw_records (response [edge 5 1, edge 3 2, edge 3 7, edge 4 9]) [(5, 1), (3, 2), (3, 7), (4, 9)]"
    by (simp add: raw_records_def response_def edge_def edges_of_def rank_of_def cone_of_def)
  have c: "[(5, 1), (3, 2), (3, 7), (4, 9)] \<noteq> ([] :: (int \<times> int) list)"
    by simp
  show ?thesis
    using a b c selector_takes_last_minimum
      [of tie_session "''Ionos''" "response [edge 5 1, edge 3 2, edge 3 7, edge 4 9]"
          "[(5, 1), (3, 2), (3, 7), (4, 9)]"]
    by simp
qed

text \<open>
  Claim C10. On a well-formed response with at least one record, the cone size returned
  is not the placeholder \<open>None\<close>: it is the cone size of a record whose rank is the
  minimum rank.
\<close>

theorem conesize_is_assigned:
  assumes "session (request_url organization) = Json body"
    and "raw_records body records" and "records \<noteq> []"
  shows "\<exists>rank conesize.
           get_highest_rank_asn session organization = Inr (rank, conesize) \<and>
           conesize \<noteq> JNull \<and>
           (\<exists>r \<in> set records. fst r = Min (fst ` set records) \<and> conesize = JInt (snd r))"
proof -
  let ?m = "Min (fst ` set records)"
  have "?m \<in> fst ` set records"
    using assms(3) by (intro Min_in) auto
  then obtain x where "x \<in> set records" and "fst x = ?m"
    by force
  then have ne: "filter (\<lambda>r. fst r = ?m) records \<noteq> []"
    by (auto simp: filter_empty_conv)
  from last_in_set [OF ne]
  have "last (filter (\<lambda>r. fst r = ?m) records) \<in> set records"
    and "fst (last (filter (\<lambda>r. fst r = ?m) records)) = ?m"
    by simp_all
  then show ?thesis
    using get_highest_rank_asn_ints [of session organization body records] assms by auto
qed

theorem conesize_is_assigned_witness:
  "fixture_session (request_url ''Equinix'') = Json (response [edge 200 232]) \<and>
   raw_records (response [edge 200 232]) [(200, 232)] \<and>
   [(200, 232)] \<noteq> ([] :: (int \<times> int) list) \<and>
   (\<exists>rank conesize.
      get_highest_rank_asn fixture_session ''Equinix'' = Inr (rank, conesize) \<and>
      conesize \<noteq> JNull \<and> conesize = JInt 232)"
proof -
  have a: "fixture_session (request_url ''Equinix'') = Json (response [edge 200 232])"
    by (simp add: fixture_session_def request_url_def)
  have b: "raw_records (response [edge 200 232]) [(200, 232)]"
    by (simp add: raw_records_def response_def edge_def edges_of_def rank_of_def cone_of_def)
  have c: "[(200, 232)] \<noteq> ([] :: (int \<times> int) list)"
    by simp
  show ?thesis
    using a b c conesize_is_assigned
      [of fixture_session "''Equinix''" "response [edge 200 232]" "[(200, 232)]"]
    by simp
qed

subsection \<open>An empty edge list\<close>

lemma selector_empty:
  assumes "edges_of asns = Inr edges" and "py_iter edges = Inr []"
  shows "selector asns = Inl ValueError"
  using assms by (simp add: selector_def py_min_rank_def)

section \<open>Properties of \<open>beautify\<close>\<close>





lemma digits_small: "n < 10 \<Longrightarrow> digits n = [digit n]"
  by (simp add: digits.simps [of n])

lemma digits_large: "\<not> n < 10 \<Longrightarrow> digits n = digits (n div 10) @ [digit (n mod 10)]"
  by (simp add: digits.simps [of n])


lemma value_of_snoc: "value_of (s @ [c]) = 10 * value_of s + (of_char c - 48)"
  by (simp add: value_of_def)




lemma digits_short: "n < 10 ^ k \<Longrightarrow> 0 < k \<Longrightarrow> length (digits n) \<le> k"
proof (induction n arbitrary: k rule: digits.induct)
  case (1 n)
  show ?case
  proof (cases "n < 10")
    case True
    then show ?thesis
      using "1.prems" by (simp add: digits_small)
  next
    case False
    obtain j where k: "k = Suc j"
      using "1.prems"(2) by (cases k) auto
    have "0 < j"
    proof (rule ccontr)
      assume "\<not> 0 < j"
      then show False using "1.prems"(1) False k by simp
    qed
    moreover have "n div 10 < 10 ^ j"
      using "1.prems"(1) k by (simp add: less_mult_imp_div_less mult.commute)
    ultimately have "length (digits (n div 10)) \<le> j"
      using "1.IH" False by simp
    then show ?thesis
      using False k by (simp add: digits_large)
  qed
qed


lemma digits_0: "digits 0 = ''0''"
  by (simp add: digits_small digit_def)






lemma is_digit_value:
  assumes "is_digit c"
  shows "(of_char c :: nat) - 48 < 10 \<and> digit (of_char c - 48) = c"
  using assms by (auto simp: is_digit_def digit_def)

lemma digits_value_of:
  "s \<noteq> [] \<Longrightarrow> list_all is_digit s \<Longrightarrow> \<not> (1 < length s \<and> hd s = CHR ''0'') \<Longrightarrow>
   digits (value_of s) = s"
proof (induction s rule: rev_induct)
  case Nil
  then show ?case by simp
next
  case (snoc c xs)
  from snoc.prems(2) have c: "is_digit c" and xs: "list_all is_digit xs"
    by simp_all
  let ?d = "(of_char c :: nat) - 48"
  have d: "?d < 10" "digit ?d = c"
    using is_digit_value [OF c] by simp_all
  show ?case
  proof (cases "xs = []")
    case True
    then show ?thesis
      using d by (simp add: value_of_def digits_small)
  next
    case False
    then have "hd xs \<noteq> CHR ''0''"
      using snoc.prems(3) by (cases xs) auto
    then have canonical: "\<not> (1 < length xs \<and> hd xs = CHR ''0'')"
      by simp
    have ih: "digits (value_of xs) = xs"
      by (rule snoc.IH [OF False xs canonical])
    have "value_of xs \<noteq> 0"
    proof
      assume "value_of xs = 0"
      then have "xs = ''0''"
        using ih by (simp add: digits_0)
      then show False
        using \<open>hd xs \<noteq> CHR ''0''\<close> by simp
    qed
    then have "\<not> 10 * value_of xs + ?d < 10"
      by simp
    moreover have "(10 * value_of xs + ?d) div 10 = value_of xs"
      using d(1) by simp
    moreover have "(10 * value_of xs + ?d) mod 10 = ?d"
      using d(1) by simp
    ultimately show ?thesis
      using ih d(2) by (simp add: value_of_snoc digits_large)
  qed
qed

lemma read_decimal_unique:
  assumes "read_decimal s = Some i"
  shows "s = decimal i"
proof -
  let ?negative = "take 1 s = ''-''"
  let ?body = "if ?negative then drop 1 s else s"
  from assms have body: "?body \<noteq> []" "list_all is_digit ?body"
    "\<not> (1 < length ?body \<and> hd ?body = CHR ''0'')" "\<not> (?negative \<and> ?body = ''0'')"
    and i: "i = (if ?negative then - int (value_of ?body) else int (value_of ?body))"
    by (auto simp: read_decimal_def Let_def split: if_splits)
  have digits: "digits (value_of ?body) = ?body"
    by (rule digits_value_of [OF body(1,2,3)])
  show ?thesis
  proof (cases ?negative)
    case True
    then have s: "s = CHR ''-'' # drop 1 s"
      by (cases s) simp_all
    have "value_of (drop 1 s) \<noteq> 0"
    proof
      assume "value_of (drop 1 s) = 0"
      then have "drop 1 s = ''0''"
        using digits True by (simp add: digits_0)
      then show False
        using body(4) True by simp
    qed
    then have "i < 0" and "nat (- i) = value_of (drop 1 s)"
      using i True by simp_all
    then have "decimal i = CHR ''-'' # drop 1 s"
      using digits True by (simp add: decimal_def)
    then show ?thesis
      using s by simp
  next
    case False
    then have "0 \<le> i" and "nat i = value_of s"
      using i by simp_all
    then show ?thesis
      using digits False by (simp add: decimal_def)
  qed
qed

lemma header_fields:
  "format_s Center 10 ''Organization'' = ''Organization''"
  "format_s Center 10 ''ASRank'' = ''  ASRank  ''"
  "format_s Center 10 ''ConeSize'' = '' ConeSize ''"
  by (simp_all add: format_s_def pad_def) (simp_all add: numeral_eq_Suc del: replicate_eq_replicate)

lemma header_line_eq: "header_line = ''Organization   ASRank    ConeSize ''"
  by (simp only: header_line_def header_fields) simp

lemma rule_line_eq: "rule_line = ''-----------------------------------''"
  unfolding rule_line_def
  by (simp only: eval_nat_numeral BitM.simps replicate.simps concat.simps append.simps)

lemma print_rows_all:
  "\<forall>result \<in> set results. format_row result = Inr (line result) \<Longrightarrow>
   print_rows format_row results printed = Inr (printed @ map line results)"
  by (induction results arbitrary: printed) simp_all

text \<open>The format code \<open>d\<close> raises exactly from \<open>10 ^ max_str_digits\<close> on.\<close>

lemma format_d_in_range:
  assumes "\<bar>i\<bar> < 10 ^ max_str_digits"
  shows "format_d width i = Inr (replicate (width - length (decimal i)) CHR '' '' @ decimal i)"
proof -
  have "0 < max_str_digits"
    by (simp add: max_str_digits_def)
  moreover have "nat \<bar>i\<bar> < 10 ^ max_str_digits"
    using assms by (simp add: nat_less_iff)
  ultimately have "length (digits (nat \<bar>i\<bar>)) \<le> max_str_digits"
    by (intro digits_short)
  then show ?thesis
    by (simp add: format_d_def pad_def)
qed


lemma row_in_range:
  assumes "\<bar>fst (snd result)\<bar> < 10 ^ max_str_digits"
    and "\<bar>snd (snd result)\<bar> < 10 ^ max_str_digits"
  shows "row result =
     Inr (fst result @ replicate (10 - length (fst result)) CHR '' '' @ '' '' @
          replicate (10 - length (decimal (fst (snd result)))) CHR '' '' @
          decimal (fst (snd result)) @ '' '' @
          replicate (10 - length (decimal (snd (snd result)))) CHR '' '' @
          decimal (snd (snd result)))"
  by (simp add: row_def format_d_in_range [OF assms(1)] format_d_in_range [OF assms(2)]
      format_s_def pad_def)

lemma beautify_rows:
  assumes "\<forall>result \<in> set results.
      \<bar>fst (snd result)\<bar> < 10 ^ max_str_digits \<and> \<bar>snd (snd result)\<bar> < 10 ^ max_str_digits"
  shows "beautify results =
     Inr (''Organization   ASRank    ConeSize '' #
          ''-----------------------------------'' #
          map (\<lambda>result.
                 fst result @ replicate (10 - length (fst result)) CHR '' '' @ '' '' @
                 replicate (10 - length (decimal (fst (snd result)))) CHR '' '' @
                 decimal (fst (snd result)) @ '' '' @
                 replicate (10 - length (decimal (snd (snd result)))) CHR '' '' @
                 decimal (snd (snd result))) results)"
proof -
  let ?line = "\<lambda>result.
                 fst result @ replicate (10 - length (fst result)) CHR '' '' @ '' '' @
                 replicate (10 - length (decimal (fst (snd result)))) CHR '' '' @
                 decimal (fst (snd result)) @ '' '' @
                 replicate (10 - length (decimal (snd (snd result)))) CHR '' '' @
                 decimal (snd (snd result))"
  have rows: "\<forall>result \<in> set results. row result = Inr (?line result)"
    using assms by (simp add: row_in_range)
  show ?thesis
    using print_rows_all [where format_row = row and line = ?line
        and printed = "[header_line, rule_line]", OF rows]
    by (simp add: beautify_def header_line_eq rule_line_eq)
qed

lemma beautify_Nil:
  "beautify [] =
     Inr [''Organization   ASRank    ConeSize '', ''-----------------------------------'']"
  by (simp add: beautify_def header_line_eq rule_line_eq)


lemma digits_numeral:
  "digits (numeral k) =
     (if (numeral k :: nat) < 10 then [digit (numeral k)]
      else digits (numeral k div 10) @ [digit (numeral k mod 10)])"
  by (rule digits.simps)

lemma decimal_examples:
  "decimal 6949 = ''6949''" "decimal 2 = ''2''" "decimal 0 = ''0''" "decimal (- 120) = ''-120''"
  by (simp_all add: decimal_def digits_numeral digits_small digit_def)

lemma in_range_small:
  fixes i :: int
  assumes "\<bar>i\<bar> < 10000"
  shows "\<bar>i\<bar> < 10 ^ max_str_digits"
proof -
  have "(10::int) ^ 4 \<le> 10 ^ max_str_digits"
    by (rule power_increasing) (simp_all add: max_str_digits_def)
  then show ?thesis
    using assms by simp
qed



section \<open>Properties of the loop of \<open>main\<close>\<close>

lemma aggregate_caught:
  assumes "get_highest_rank_asn session organization = Inl e" and "is_ValueError e"
  shows "aggregate session (organization # organizations) results printed =
         aggregate session organizations results (printed @ [diagnostic organization])"
  using assms by simp

lemma aggregate_uncaught:
  assumes "get_highest_rank_asn session organization = Inl e" and "\<not> is_ValueError e"
  shows "aggregate session (organization # organizations) results printed = Inl (e, printed)"
  using assms by simp

lemma aggregate_all_caught:
  "\<forall>organization \<in> set organizations.
     \<exists>e. get_highest_rank_asn session organization = Inl e \<and> is_ValueError e \<Longrightarrow>
   aggregate session organizations results printed =
     Inr (results, printed @ map diagnostic organizations)"
proof (induction organizations arbitrary: printed)
  case Nil
  then show ?case by simp
next
  case (Cons organization organizations)
  then obtain e where e: "get_highest_rank_asn session organization = Inl e" "is_ValueError e"
    by auto
  have "aggregate session (organization # organizations) results printed =
        aggregate session organizations results (printed @ [diagnostic organization])"
    by (rule aggregate_caught [OF e])
  also have "\<dots> = Inr (results, (printed @ [diagnostic organization]) @ map diagnostic organizations)"
    using Cons.prems by (intro Cons.IH) simp
  finally show ?case by simp
qed

text \<open>
  Claim C8. When the edges of an organization are an empty sequence, the selector, and so
  \<open>get_highest_rank_asn\<close>, raises \<open>ValueError\<close>, the class named by the \<open>except\<close> clause of
  \<open>main\<close>: the loop prints the diagnostic for the organization, adds no result and goes on
  with the remaining organizations.
\<close>

theorem empty_edges_raise_ValueError:
  assumes "session (request_url organization) = Json body"
    and "subscript body ''data'' = Inr asns"
    and "edges_of asns = Inr edges" and "py_iter edges = Inr []"
  shows "selector asns = Inl ValueError \<and>
         get_highest_rank_asn session organization = Inl ValueError \<and>
         is_ValueError ValueError \<and>
         aggregate session (organization # organizations) results printed =
           aggregate session organizations results (printed @ [diagnostic organization])"
proof -
  have s: "selector asns = Inl ValueError"
    by (rule selector_empty [OF assms(3,4)])
  have g: "get_highest_rank_asn session organization = Inl ValueError"
    by (simp add: get_highest_rank_asn_def assms(1,2) s)
  show ?thesis
    using s g aggregate_caught [OF g] by simp
qed

text \<open>Witness of claim C8: a session whose answers have an empty edge list.\<close>

theorem empty_edges_raise_ValueError_witness:
  "empty_session (request_url ''Zenlayer'') = Json (response []) \<and>
   subscript (response []) ''data'' = Inr (JObj [(''asns'', JObj [(''totalCount'', JInt 0), (''edges'', JArr [])])]) \<and>
   edges_of (JObj [(''asns'', JObj [(''totalCount'', JInt 0), (''edges'', JArr [])])]) = Inr (JArr []) \<and>
   py_iter (JArr []) = Inr [] \<and>
   get_highest_rank_asn empty_session ''Zenlayer'' = Inl ValueError \<and>
   aggregate empty_session [''Zenlayer''] [] [] =
     Inr ([], [''the following Zenlayer does not have information!''])"
proof -
  let ?asns = "JObj [(''asns'', JObj [(''totalCount'', JInt 0), (''edges'', JArr [])])]"
  have a: "empty_session (request_url ''Zenlayer'') = Json (response [])"
    by (simp add: empty_session_def)
  have b: "subscript (response []) ''data'' = Inr ?asns"
    by (simp add: response_def)
  have c: "edges_of ?asns = Inr (JArr [])"
    by (simp add: edges_of_def)
  have d: "py_iter (JArr []) = Inr []"
    by simp
  show ?thesis
    using a b c d empty_edges_raise_ValueError
      [of empty_session "''Zenlayer''" "response []" ?asns "JArr []" "[]" "[]" "[]"]
    by (simp add: diagnostic_def)
qed

text \<open>
  Claim C2, as the code has it. A failure of class \<open>ValueError\<close> for one organization
  (an empty edge list, or a body that is not JSON) is caught by the loop, which prints
  one diagnostic line naming the organization and goes on with the remaining
  organizations; a failure of any other class (the connection error of a failed network
  call, a missing key) is not caught and leaves the loop at once. When every organization fails with a
  \<open>ValueError\<close>, the result list is empty, one diagnostic line is printed per
  organization, and \<open>main\<close> completes normally after printing the header and the rule.
\<close>

theorem value_errors_are_skipped:
  "(get_highest_rank_asn session organization = Inl e \<and> is_ValueError e \<longrightarrow>
      aggregate session (organization # organizations) results printed =
        aggregate session organizations results (printed @ [diagnostic organization])) \<and>
   (get_highest_rank_asn session organization = Inl e \<and> \<not> is_ValueError e \<longrightarrow>
      aggregate session (organization # organizations) results printed = Inl (e, printed)) \<and>
   ((\<forall>organization \<in> set ORGANIZATIONS.
       \<exists>e. get_highest_rank_asn session organization = Inl e \<and> is_ValueError e) \<longrightarrow>
      aggregate session ORGANIZATIONS [] [] = Inr ([], map diagnostic ORGANIZATIONS) \<and>
      (sort_by \<in> {None, Some ''asrank'', Some ''cone_size''} \<and>
       order \<in> {None, Some ''ascending'', Some ''descending''} \<longrightarrow>
         main session sort_by order =
           Completed (map diagnostic ORGANIZATIONS @
             [''Organization   ASRank    ConeSize '', ''-----------------------------------''])))"
proof (intro conjI impI)
  assume "get_highest_rank_asn session organization = Inl e \<and> is_ValueError e"
  then show "aggregate session (organization # organizations) results printed =
        aggregate session organizations results (printed @ [diagnostic organization])"
    by (simp add: aggregate_caught)
next
  assume "get_highest_rank_asn session organization = Inl e \<and> \<not> is_ValueError e"
  then show "aggregate session (organization # organizations) results printed = Inl (e, printed)"
    by (simp add: aggregate_uncaught)
next
  assume all: "\<forall>organization \<in> set ORGANIZATIONS.
       \<exists>e. get_highest_rank_asn session organization = Inl e \<and> is_ValueError e"
  show agg: "aggregate session ORGANIZATIONS [] [] = Inr ([], map diagnostic ORGANIZATIONS)"
    using aggregate_all_caught [OF all, of "[]" "[]"] by simp
  assume args: "sort_by \<in> {None, Some ''asrank'', Some ''cone_size''} \<and>
       order \<in> {None, Some ''ascending'', Some ''descending''}"
  have "sorting_asns [] m ord = []" for m ord
    by (simp add: sorting_asns_def py_sorted_def)
  then show "main session sort_by order =
           Completed (map diagnostic ORGANIZATIONS @
             [''Organization   ASRank    ConeSize '', ''-----------------------------------''])"
    using args by (auto simp: main_def agg beautify_Nil finish_def)
qed

text \<open>
  Witness of claim C2: a body that is not JSON is skipped, a missing key is not, and with
  empty edge lists for all five organizations \<open>main\<close> prints five diagnostics and the
  empty table.
\<close>

theorem value_errors_are_skipped_witness:
  "get_highest_rank_asn html_session ''Zenlayer'' = Inl JSONDecodeError \<and>
   is_ValueError JSONDecodeError \<and>
   aggregate html_session [''Zenlayer''] [] [] =
     Inr ([], [''the following Zenlayer does not have information!'']) \<and>
   get_highest_rank_asn no_data_session ''Zenlayer'' = Inl (KeyError ''data'') \<and>
   \<not> is_ValueError (KeyError ''data'') \<and>
   aggregate no_data_session [''Zenlayer'', ''Equinix''] [] [] = Inl (KeyError ''data'', []) \<and>
   ORGANIZATIONS = [''Zenlayer'', ''Equinix'', ''Linode'', ''Ionos'', ''PhoenixNap''] \<and>
   get_highest_rank_asn empty_session ''Zenlayer'' = Inl ValueError \<and>
   get_highest_rank_asn empty_session ''Equinix'' = Inl ValueError \<and>
   get_highest_rank_asn empty_session ''Linode'' = Inl ValueError \<and>
   get_highest_rank_asn empty_session ''Ionos'' = Inl ValueError \<and>
   get_highest_rank_asn empty_session ''PhoenixNap'' = Inl ValueError \<and>
   is_ValueError ValueError \<and>
   Some ''cone_size'' \<in> {None, Some ''asrank'', Some ''cone_size''} \<and>
   Some ''descending'' \<in> {None, Some ''ascending'', Some ''descending''} \<and>
   aggregate empty_session ORGANIZATIONS [] [] = Inr ([], map diagnostic ORGANIZATIONS) \<and>
   main empty_session (Some ''cone_size'') (Some ''descending'') =
     Completed
       [''the following Zenlayer does not have information!'',
        ''the following Equinix does not have information!'',
        ''the following Linode does not have information!'',
        ''the following Ionos does not have information!'',
        ''the following PhoenixNap does not have information!'',
        ''Organization   ASRank    ConeSize '',
        ''-----------------------------------'']"
proof -
  have a: "get_highest_rank_asn html_session ''Zenlayer'' = Inl JSONDecodeError"
    by (simp add: get_highest_rank_asn_def html_session_def)
  have b: "get_highest_rank_asn no_data_session ''Zenlayer'' = Inl (KeyError ''data'')"
    by (simp add: get_highest_rank_asn_def no_data_session_def)
  have c: "get_highest_rank_asn empty_session organization = Inl ValueError" for organization
    by (simp add: get_highest_rank_asn_def empty_session_def response_def selector_def
        edges_of_def py_min_rank_def)
  have d: "\<forall>organization \<in> set ORGANIZATIONS.
      \<exists>e. get_highest_rank_asn empty_session organization = Inl e \<and> is_ValueError e"
    by (simp add: c)
  have m: "map diagnostic ORGANIZATIONS =
       [''the following Zenlayer does not have information!'',
        ''the following Equinix does not have information!'',
        ''the following Linode does not have information!'',
        ''the following Ionos does not have information!'',
        ''the following PhoenixNap does not have information!'']"
    by (simp add: ORGANIZATIONS_def diagnostic_def)
  show ?thesis
    using a b d
      value_errors_are_skipped [of html_session "''Zenlayer''" JSONDecodeError "[]" "[]" "[]"]
      value_errors_are_skipped [of no_data_session "''Zenlayer''" "KeyError ''data''"
        "[''Equinix'']" "[]" "[]"]
      value_errors_are_skipped [of empty_session _ _ _ _ _ "Some ''cone_size''" "Some ''descending''"]
    by (simp add: m c diagnostic_def ORGANIZATIONS_def)
qed

text \<open>
  Claim C2 as stated fails: when the answers are the JSON object \<open>{}\<close>, the first
  organization raises \<open>KeyError('data')\<close>, which ends \<open>main\<close> with no diagnostic printed.
\<close>

theorem missing_key_aborts_run:
  "get_highest_rank_asn no_data_session ''Zenlayer'' = Inl (KeyError ''data'') \<and>
   main no_data_session None None = Uncaught (KeyError ''data'') []"
  by (simp add: main_def ORGANIZATIONS_def get_highest_rank_asn_def no_data_session_def)

text \<open>
  Claim C3, as the code has it. When \<open>session.get\<close> raises, \<open>get_highest_rank_asn\<close> fails
  with that very error, not with a \<open>LookupError\<close> carrying the organization, and the loop
  of \<open>main\<close> catches it exactly when it is a \<open>ValueError\<close>: a transport error such as
  \<open>ConnectionError\<close> is neither a \<open>LookupError\<close> nor a \<open>ValueError\<close> and ends the run,
  while the errors of \<open>requests\<close> that derive from \<open>ValueError\<close>, such as \<open>InvalidSchema\<close>,
  are no \<open>LookupError\<close> either and are skipped with the diagnostic. When the body is not
  JSON it raises a JSON decode error, a \<open>ValueError\<close> and no \<open>LookupError\<close>, which the loop
  catches. When the body is a JSON object in which \<open>data\<close>, or below it \<open>asns\<close>, or below
  that \<open>edges\<close> is absent, it raises \<open>KeyError\<close> with the missing key, a \<open>LookupError\<close>,
  which the loop does not catch.
\<close>

theorem fetcher_failures:
  "(session (request_url organization) = Request_failed e \<longrightarrow>
      get_highest_rank_asn session organization = Inl e \<and>
      (is_ValueError e \<longrightarrow>
         aggregate session (organization # organizations) results printed =
           aggregate session organizations results (printed @ [diagnostic organization])) \<and>
      (\<not> is_ValueError e \<longrightarrow>
         aggregate session (organization # organizations) results printed = Inl (e, printed))) \<and>
   \<not> is_LookupError ConnectionError \<and> \<not> is_ValueError ConnectionError \<and>
   \<not> is_LookupError InvalidSchema \<and> is_ValueError InvalidSchema \<and>
   (session (request_url organization) = Not_json \<longrightarrow>
      get_highest_rank_asn session organization = Inl JSONDecodeError \<and>
      \<not> is_LookupError JSONDecodeError \<and> is_ValueError JSONDecodeError \<and>
      aggregate session (organization # organizations) results printed =
        aggregate session organizations results (printed @ [diagnostic organization])) \<and>
   (session (request_url organization) = Json (JObj items) \<and> map_of items ''data'' = None \<longrightarrow>
      get_highest_rank_asn session organization = Inl (KeyError ''data'') \<and>
      is_LookupError (KeyError ''data'') \<and> \<not> is_ValueError (KeyError ''data'') \<and>
      aggregate session (organization # organizations) results printed =
        Inl (KeyError ''data'', printed)) \<and>
   (session (request_url organization) = Json body \<and>
    subscript body ''data'' = Inr (JObj items) \<and> map_of items ''asns'' = None \<longrightarrow>
      get_highest_rank_asn session organization = Inl (KeyError ''asns'') \<and>
      is_LookupError (KeyError ''asns'') \<and> \<not> is_ValueError (KeyError ''asns'') \<and>
      aggregate session (organization # organizations) results printed =
        Inl (KeyError ''asns'', printed)) \<and>
   (session (request_url organization) = Json body \<and> subscript body ''data'' = Inr asns \<and>
    subscript asns ''asns'' = Inr (JObj items) \<and> map_of items ''edges'' = None \<longrightarrow>
      get_highest_rank_asn session organization = Inl (KeyError ''edges'') \<and>
      is_LookupError (KeyError ''edges'') \<and> \<not> is_ValueError (KeyError ''edges'') \<and>
      aggregate session (organization # organizations) results printed =
        Inl (KeyError ''edges'', printed))"
  by (simp add: get_highest_rank_asn_def selector_def edges_of_def)

text \<open>Witness of claim C3: one session for each of the six cases.\<close>

theorem fetcher_failures_witness:
  "unreachable_session (request_url ''Linode'') = Request_failed ConnectionError \<and>
   \<not> is_ValueError ConnectionError \<and>
   get_highest_rank_asn unreachable_session ''Linode'' = Inl ConnectionError \<and>
   aggregate unreachable_session [''Linode'', ''Ionos''] [] [] = Inl (ConnectionError, []) \<and>
   bad_proxy_session (request_url ''Linode'') = Request_failed InvalidSchema \<and>
   is_ValueError InvalidSchema \<and>
   get_highest_rank_asn bad_proxy_session ''Linode'' = Inl InvalidSchema \<and>
   aggregate bad_proxy_session [''Linode''] [] [] =
     Inr ([], [''the following Linode does not have information!'']) \<and>
   html_session (request_url ''Linode'') = Not_json \<and>
   get_highest_rank_asn html_session ''Linode'' = Inl JSONDecodeError \<and>
   no_data_session (request_url ''Linode'') = Json (JObj []) \<and> map_of [] ''data'' = (None :: json option) \<and>
   get_highest_rank_asn no_data_session ''Linode'' = Inl (KeyError ''data'') \<and>
   no_asns_session (request_url ''Linode'') = Json (JObj [(''data'', JObj [])]) \<and>
   subscript (JObj [(''data'', JObj [])]) ''data'' = Inr (JObj []) \<and>
   map_of [] ''asns'' = (None :: json option) \<and>
   get_highest_rank_asn no_asns_session ''Linode'' = Inl (KeyError ''asns'') \<and>
   no_edges_session (request_url ''Linode'') = Json (JObj [(''data'', JObj [(''asns'', JObj [])])]) \<and>
   subscript (JObj [(''data'', JObj [(''asns'', JObj [])])]) ''data'' = Inr (JObj [(''asns'', JObj [])]) \<and>
   subscript (JObj [(''asns'', JObj [])]) ''asns'' = Inr (JObj []) \<and>
   map_of [] ''edges'' = (None :: json option) \<and>
   get_highest_rank_asn no_edges_session ''Linode'' = Inl (KeyError ''edges'') \<and>
   aggregate no_edges_session [''Linode'', ''Ionos''] [] [] = Inl (KeyError ''edges'', [])"
proof -
  have a: "unreachable_session (request_url ''Linode'') = Request_failed ConnectionError"
    by (simp add: unreachable_session_def)
  have a': "bad_proxy_session (request_url ''Linode'') = Request_failed InvalidSchema"
    by (simp add: bad_proxy_session_def)
  have b: "html_session (request_url ''Linode'') = Not_json"
    by (simp add: html_session_def)
  have c: "no_data_session (request_url ''Linode'') = Json (JObj [])"
    by (simp add: no_data_session_def)
  have d: "no_asns_session (request_url ''Linode'') = Json (JObj [(''data'', JObj [])])"
    by (simp add: no_asns_session_def)
  have e: "no_edges_session (request_url ''Linode'') =
      Json (JObj [(''data'', JObj [(''asns'', JObj [])])])"
    by (simp add: no_edges_session_def)
  show ?thesis
    using a a' b c d e
      fetcher_failures [where session = unreachable_session and organization = "''Linode''"
        and e = ConnectionError and organizations = "[''Ionos'']" and results = "[]"
        and printed = "[]"]
      fetcher_failures [where session = bad_proxy_session and organization = "''Linode''"
        and e = InvalidSchema and organizations = "[]" and results = "[]" and printed = "[]"]
      fetcher_failures [where session = html_session and organization = "''Linode''"
        and organizations = "[]" and results = "[]" and printed = "[]"]
      fetcher_failures [where session = no_data_session and organization = "''Linode''"
        and organizations = "[]" and results = "[]" and printed = "[]" and items = "[]"]
      fetcher_failures [where session = no_asns_session and organization = "''Linode''"
        and organizations = "[]" and results = "[]" and printed = "[]" and items = "[]"
        and body = "JObj [(''data'', JObj [])]"]
      fetcher_failures [where session = no_edges_session and organization = "''Linode''"
        and organizations = "[''Ionos'']" and results = "[]" and printed = "[]"
        and items = "[]" and body = "JObj [(''data'', JObj [(''asns'', JObj [])])]"
        and asns = "JObj [(''asns'', JObj [])]"]
    by (simp add: diagnostic_def)
qed

text \<open>
  Claim C3 as stated fails: a failed network call and a body that is not JSON raise errors
  that are no \<open>LookupError\<close>; the \<open>KeyError\<close> of a missing key carries the key, not the
  organization; and the loop of \<open>main\<close> catches neither the network error nor the
  \<open>KeyError\<close>.
\<close>

theorem fetcher_errors_not_LookupError_caught:
  "get_highest_rank_asn unreachable_session ''Linode'' = Inl ConnectionError \<and>
   \<not> is_LookupError ConnectionError \<and>
   aggregate unreachable_session [''Linode'', ''Ionos''] [] [] = Inl (ConnectionError, []) \<and>
   get_highest_rank_asn html_session ''Linode'' = Inl JSONDecodeError \<and>
   \<not> is_LookupError JSONDecodeError \<and>
   get_highest_rank_asn no_edges_session ''Linode'' = Inl (KeyError ''edges'') \<and>
   KeyError ''edges'' \<noteq> KeyError ''Linode'' \<and>
   aggregate no_edges_session [''Linode'', ''Ionos''] [] [] = Inl (KeyError ''edges'', [])"
  by (simp add: get_highest_rank_asn_def unreachable_session_def html_session_def
      no_edges_session_def selector_def edges_of_def)

section \<open>The end-to-end scenario\<close>

text \<open>
  Linode has the records (6949, 2) and (9000, 1), Equinix the record (200, 232), the
  other organizations none; sorted by rank, ascending.
\<close>

lemma fixture_lookups:
  "get_highest_rank_asn fixture_session ''Zenlayer'' = Inl ValueError"
  "get_highest_rank_asn fixture_session ''Equinix'' = Inr (JInt 200, JInt 232)"
  "get_highest_rank_asn fixture_session ''Linode'' = Inr (JInt 6949, JInt 2)"
  "get_highest_rank_asn fixture_session ''Ionos'' = Inl ValueError"
  "get_highest_rank_asn fixture_session ''PhoenixNap'' = Inl ValueError"
  by (simp_all add: get_highest_rank_asn_def fixture_session_def request_url_def response_def
      edge_def selector_def edges_of_def rank_of_def cone_of_def py_min_rank_def)

lemma main_end_to_end:
  "main fixture_session (Some ''asrank'') (Some ''ascending'') =
     Completed
       [''the following Zenlayer does not have information!'',
        ''the following Ionos does not have information!'',
        ''the following PhoenixNap does not have information!'',
        ''Organization   ASRank    ConeSize '',
        ''-----------------------------------'',
        ''Equinix           200        232'',
        ''Linode           6949          2'']"
proof -
  have agg: "aggregate fixture_session ORGANIZATIONS [] [] =
      Inr ([(''Equinix'', JInt 200, JInt 232), (''Linode'', JInt 6949, JInt 2)],
           [diagnostic ''Zenlayer'', diagnostic ''Ionos'', diagnostic ''PhoenixNap''])"
    by (simp add: ORGANIZATIONS_def fixture_lookups)
  have srt: "sorting_asns [(''Equinix'', 200, 232), (''Linode'', 6949, 2)] ''asrank'' ''ascending'' =
      [(''Equinix'', 200, 232), (''Linode'', 6949, 2)]"
    by (simp add: sorting_asns_def py_sorted_def field_def)
  have "\<bar>200 :: int\<bar> < 10 ^ max_str_digits" "\<bar>232 :: int\<bar> < 10 ^ max_str_digits"
    "\<bar>6949 :: int\<bar> < 10 ^ max_str_digits" "\<bar>2 :: int\<bar> < 10 ^ max_str_digits"
    by (rule in_range_small, simp)+
  then have range: "\<forall>result \<in> set [(''Equinix'', 200 :: int, 232 :: int), (''Linode'', 6949, 2)].
      \<bar>fst (snd result)\<bar> < 10 ^ max_str_digits \<and> \<bar>snd (snd result)\<bar> < 10 ^ max_str_digits"
    by simp
  have tbl: "beautify [(''Equinix'', 200, 232), (''Linode'', 6949, 2)] =
     Inr [''Organization   ASRank    ConeSize '',
          ''-----------------------------------'',
          ''Equinix           200        232'',
          ''Linode           6949          2'']"
    unfolding beautify_rows [OF range]
    by (simp add: decimal_def digits_numeral digits_small digit_def)
       (simp add: numeral_eq_Suc del: replicate_eq_replicate)
  show ?thesis
    by (simp add: main_def agg srt tbl diagnostic_def finish_def)
qed

section \<open>Collected values that are not integers\<close>

text \<open>
  With a cone size that is \<open>null\<close>: sorted by rank, the header and the rule are printed
  before the format code \<open>d\<close> raises \<open>TypeError\<close> at the first row; sorted by cone size,
  \<open>sorted\<close> raises \<open>TypeError\<close> before anything is printed. With a rank that is a str the
  format code raises \<open>ValueError\<close>.
\<close>

lemma null_cone_lookup:
  "get_highest_rank_asn null_cone_session organization = Inr (JInt 5, JNull)"
  by (simp add: get_highest_rank_asn_def null_cone_session_def response_def
      selector_def edges_of_def rank_of_def cone_of_def py_min_rank_def)

lemma text_rank_lookup:
  "get_highest_rank_asn text_rank_session organization = Inr (JStr ''7'', JInt 1)"
  by (simp add: get_highest_rank_asn_def text_rank_session_def response_def
      selector_def edges_of_def rank_of_def cone_of_def py_min_rank_def)

lemma format_d_5: "format_d 10 5 = Inr ''         5''"
  by (simp add: format_d_def max_str_digits_def digits_small pad_def decimal_def digit_def)
     (simp add: numeral_eq_Suc del: replicate_eq_replicate)

lemma main_null_cone:
  "main null_cone_session (Some ''asrank'') None =
     Uncaught TypeError
       [''Organization   ASRank    ConeSize '', ''-----------------------------------'']"
  "main null_cone_session (Some ''cone_size'') None = Uncaught TypeError []"
  by (simp_all add: main_def ORGANIZATIONS_def null_cone_lookup sorting_asns_py_def
      py_sorted_any_def comparable_def sort_py_def field_def beautify_py_def row_py_def
      format_d_5 finish_def header_line_eq rule_line_eq)

lemma main_text_rank:
  "main text_rank_session (Some ''asrank'') None =
     Uncaught ValueError
       [''Organization   ASRank    ConeSize '', ''-----------------------------------'']"
  by (simp add: main_def ORGANIZATIONS_def text_rank_lookup sorting_asns_py_def
      py_sorted_any_def comparable_def sort_py_def field_def beautify_py_def row_py_def
      finish_def header_line_eq rule_line_eq)

text \<open>
  On tuples of integers the functions on parsed values do what the functions on
  Organization Results do, so that the two branches of \<open>main\<close> agree there.
\<close>

lemma int_results_as_json: "int_results (map as_json rs) = Some rs"
  by (induction rs) (simp_all add: as_json_def)

lemma insort_py_map:
  "insort_py g (h x) (map h ys) = map h (insort_py (\<lambda>y. g (h y)) x ys)"
  by (induction ys) simp_all

lemma sort_py_map: "sort_py g (map h xs) = map h (sort_py (\<lambda>y. g (h y)) xs)"
  by (induction xs) (simp_all add: sort_py_def insort_py_map)

lemma insort_py_int: "insort_py (\<lambda>y. JInt (f y)) x ys = insort_key f x ys"
  by (induction ys) (simp_all add: not_le)

lemma sort_py_int: "sort_py (\<lambda>y. JInt (f y)) xs = sort_key f xs"
  by (induction xs) (simp_all add: sort_py_def insort_py_int)

lemma comparable_ints: "comparable (map (\<lambda>y. JInt (f y)) xs)"
  by (simp add: comparable_def list_all_iff)

lemma py_sorted_short: "length xs \<le> 1 \<Longrightarrow> py_sorted f r xs = xs"
  by (cases xs) (simp_all add: py_sorted_def)

lemma field_as_json: "field index (as_json result) = JInt (field index result)"
  by (simp add: field_def as_json_def)

lemma sort_py_as_json:
  "sort_py (field index) (map as_json xs) = map as_json (sort_key (field index) xs)"
  by (simp add: sort_py_map field_as_json sort_py_int)

lemma py_sorted_any_ints:
  "py_sorted_any (field index) r (map as_json rs) =
     Inr (map as_json (py_sorted (field index) r rs))"
proof (cases "length rs \<le> 1")
  case True
  then show ?thesis
    by (simp add: py_sorted_any_def py_sorted_short)
next
  case False
  have "comparable (map (field index) (map as_json rs))"
    using comparable_ints [of "field index" rs] by (simp add: field_as_json comp_def)
  then show ?thesis
    using False
    by (simp add: py_sorted_any_def py_sorted_def sort_py_as_json rev_map)
qed

lemma sorting_asns_py_ints:
  "sorting_asns_py (map as_json rs) metric order = Inr (map as_json (sorting_asns rs metric order))"
  by (simp add: sorting_asns_py_def sorting_asns_def py_sorted_any_ints)

lemma row_py_as_json: "row_py (as_json result) = row result"
  by (simp add: row_py_def row_def as_json_def split: sum.splits)

lemma print_rows_as_json:
  "print_rows row_py (map as_json rs) printed = print_rows row rs printed"
  by (induction rs arbitrary: printed) (simp_all add: row_py_as_json split: sum.splits)

lemma beautify_py_ints: "beautify_py (map as_json rs) = beautify rs"
  by (simp add: beautify_py_def beautify_def print_rows_as_json)

lemma tails_agree:
  "(case sorting_asns_py (map as_json rs) metric order of
      Inl e \<Rightarrow> Uncaught e printed
    | Inr sorted_results \<Rightarrow> finish printed (beautify_py sorted_results)) =
   finish printed (beautify (sorting_asns rs metric order))"
  by (simp add: sorting_asns_py_ints beautify_py_ints)

end
